theory Spec2Isabelle
  imports Complex_Main "HOL-Library.Multiset"
begin

section \<open>Python values\<close>

text \<open>
  The engine (\<^verbatim>\<open>parse_pi_status\<close> in \<^verbatim>\<open>scripts/esi_query.py\<close>) works on
  deserialised JSON: every field it reads may hold any Python value. A value is one of
  \<^verbatim>\<open>None\<close>, a \<^verbatim>\<open>bool\<close>, an \<^verbatim>\<open>int\<close> (unbounded), a \<^verbatim>\<open>float\<close>, a \<^verbatim>\<open>str\<close>,
  a \<^verbatim>\<open>list\<close> or a \<^verbatim>\<open>dict\<close> with string keys (an association list whose keys are
  distinct, as the keys of a dict are).

  Floats are modelled by exact rationals: the model computes sums, quotients and
  \<^verbatim>\<open>round(x, 2)\<close> exactly, where Python computes them in binary64. NaN, the
  infinities and the \<^verbatim>\<open>OverflowError\<close> of \<^verbatim>\<open>float()\<close> on a huge integer are
  outside the model.
\<close>

datatype pyval =
    PNone
  | PBool bool
  | PInt int
  | PFloat rat
  | PStr string
  | PList "pyval list"
  | PDict "(string \<times> pyval) list"

text \<open>The exceptions the engine and the library functions it calls can raise.\<close>

datatype py_error = TypeError | AttributeError | ValueError | OverflowError

text \<open>
  Library functions the repository calls but does not define are parameters of the
  model:
  \<^item> \<open>fromisoformat_utc s\<close> is
    \<^verbatim>\<open>datetime.fromisoformat(s).astimezone(timezone.utc)\<close>, as microseconds since the
    epoch, or the exception it raises (\<open>ValueError\<close> for a string that does not parse);
  \<^item> \<open>py_repr v\<close> is \<^verbatim>\<open>str(v)\<close> for a float, a list or a dict.
\<close>

record pylib =
  fromisoformat_utc :: "string \<Rightarrow> py_error + int"
  py_repr :: "pyval \<Rightarrow> string"

subsection \<open>Truth value, type tests, iteration, dict access\<close>

text \<open>\<^verbatim>\<open>bool(v)\<close>: what \<^verbatim>\<open>not v\<close> and \<^verbatim>\<open>v or []\<close> test.\<close>

fun py_truthy :: "pyval \<Rightarrow> bool" where
  "py_truthy PNone = False"
| "py_truthy (PBool b) = b"
| "py_truthy (PInt n) = (n \<noteq> 0)"
| "py_truthy (PFloat r) = (r \<noteq> 0)"
| "py_truthy (PStr s) = (s \<noteq> [])"
| "py_truthy (PList xs) = (xs \<noteq> [])"
| "py_truthy (PDict kvs) = (kvs \<noteq> [])"

text \<open>\<^verbatim>\<open>isinstance(v, int)\<close>: \<^verbatim>\<open>bool\<close> is a subclass of \<^verbatim>\<open>int\<close>.\<close>

fun is_int :: "pyval \<Rightarrow> bool" where
  "is_int (PInt n) = True"
| "is_int (PBool b) = True"
| "is_int v = False"

text \<open>The integer an \<^verbatim>\<open>int\<close> (or \<^verbatim>\<open>bool\<close>) hashes and compares as.\<close>

fun int_val :: "pyval \<Rightarrow> int" where
  "int_val (PInt n) = n"
| "int_val (PBool b) = (if b then 1 else 0)"
| "int_val v = 0"

text \<open>\<^verbatim>\<open>isinstance(v, (int, float))\<close> and \<^verbatim>\<open>float(v)\<close> on such a value.\<close>

fun is_number :: "pyval \<Rightarrow> bool" where
  "is_number (PInt n) = True"
| "is_number (PBool b) = True"
| "is_number (PFloat r) = True"
| "is_number v = False"

fun float_val :: "pyval \<Rightarrow> rat" where
  "float_val (PInt n) = of_int n"
| "float_val (PBool b) = (if b then 1 else 0)"
| "float_val (PFloat r) = r"
| "float_val v = 0"

text \<open>
  \<^verbatim>\<open>for x in v\<close>: a list yields its elements, a dict its keys, a string its
  characters (as one-character strings); anything else raises \<^verbatim>\<open>TypeError\<close>.
\<close>

fun py_iter :: "pyval \<Rightarrow> py_error + pyval list" where
  "py_iter (PList xs) = Inr xs"
| "py_iter (PDict kvs) = Inr (map (\<lambda>kv. PStr (fst kv)) kvs)"
| "py_iter (PStr s) = Inr (map (\<lambda>c. PStr [c]) s)"
| "py_iter v = Inl TypeError"

text \<open>\<^verbatim>\<open>d.get(k)\<close>, \<^verbatim>\<open>d.get(k, default)\<close> and \<^verbatim>\<open>k in d\<close> on a dict.\<close>

definition dict_get :: "(string \<times> pyval) list \<Rightarrow> string \<Rightarrow> pyval" where
  "dict_get kvs k = (case map_of kvs k of None \<Rightarrow> PNone | Some v \<Rightarrow> v)"

definition dict_get_default :: "(string \<times> pyval) list \<Rightarrow> string \<Rightarrow> pyval \<Rightarrow> pyval" where
  "dict_get_default kvs k d = (case map_of kvs k of None \<Rightarrow> d | Some v \<Rightarrow> v)"

definition dict_has :: "(string \<times> pyval) list \<Rightarrow> string \<Rightarrow> bool" where
  "dict_has kvs k = (map_of kvs k \<noteq> None)"

text \<open>
  The key an int-keyed table (\<^verbatim>\<open>PI_PRODUCTS\<close>, \<^verbatim>\<open>PI_STORAGE_CAPACITY_UNITS\<close>) is
  probed with by \<^verbatim>\<open>table.get(v)\<close>: an int, a bool or a float with an integral value
  hashes and compares as that integer; \<^verbatim>\<open>None\<close>, a string or another float is
  hashable and matches no key; a list or a dict is unhashable (\<^verbatim>\<open>TypeError\<close>).
\<close>

fun table_key :: "pyval \<Rightarrow> py_error + int option" where
  "table_key (PInt n) = Inr (Some n)"
| "table_key (PBool b) = Inr (Some (if b then 1 else 0))"
| "table_key (PFloat r) = Inr (if of_int \<lfloor>r\<rfloor> = r then Some \<lfloor>r\<rfloor> else None)"
| "table_key PNone = Inr None"
| "table_key (PStr s) = Inr None"
| "table_key (PList xs) = Inl TypeError"
| "table_key (PDict kvs) = Inl TypeError"

subsection \<open>Strings\<close>

definition digit_char :: "nat \<Rightarrow> char" where
  "digit_char d = ''0123456789'' ! d"

fun str_nat :: "nat \<Rightarrow> string" where
  "str_nat n = (if n < 10 then [digit_char n] else str_nat (n div 10) @ [digit_char (n mod 10)])"

declare str_nat.simps [simp del]

text \<open>\<^verbatim>\<open>str(n)\<close> for an int.\<close>

definition str_int :: "int \<Rightarrow> string" where
  "str_int n = (if n < 0 then CHR ''-'' # str_nat (nat (- n)) else str_nat (nat n))"

text \<open>\<^verbatim>\<open>str(v)\<close>, as \<^verbatim>\<open>str(planet_id)\<close> and the f-strings use it.\<close>

fun py_str :: "pylib \<Rightarrow> pyval \<Rightarrow> string" where
  "py_str lib PNone = ''None''"
| "py_str lib (PBool b) = (if b then ''True'' else ''False'')"
| "py_str lib (PInt n) = str_int n"
| "py_str lib (PStr s) = s"
| "py_str lib v = py_repr lib v"

text \<open>\<^verbatim>\<open>sep.join(parts)\<close>.\<close>

fun join :: "string \<Rightarrow> string list \<Rightarrow> string" where
  "join sep [] = []"
| "join sep [x] = x"
| "join sep (x # y # ys) = x @ sep @ join sep (y # ys)"

text \<open>\<^verbatim>\<open>value.replace("Z", "+00:00")\<close>.\<close>

definition replace_Z :: "string \<Rightarrow> string" where
  "replace_Z s = concat (map (\<lambda>c. if c = CHR ''Z'' then ''+00:00'' else [c]) s)"

subsection \<open>Rounding\<close>

text \<open>
  \<^verbatim>\<open>round(x, 2)\<close>: the nearest multiple of 0.01, a tie going to the even
  hundredth.
\<close>

definition py_round2 :: "rat \<Rightarrow> rat" where
  "py_round2 x =
     (let y = x * 100; f = \<lfloor>y\<rfloor>; d = y - of_int f
      in of_int (if d < 1 / 2 then f
                 else if 1 / 2 < d then f + 1
                 else if even f then f else f + 1) / 100)"

section \<open>Constant tables\<close>

definition PI_PRODUCTS :: "int \<Rightarrow> string option" where
  "PI_PRODUCTS = map_of
     [(2393, ''Aqueous Liquids''),
      (2396, ''Base Metals''),
      (2397, ''Carbon Compounds''),
      (2398, ''Complex Organisms''),
      (2401, ''Heavy Metals''),
      (2389, ''Bacteria''),
      (2390, ''Biofuels''),
      (2399, ''Industrial Fibers''),
      (3779, ''Biomass''),
      (2400, ''Precious Metals''),
      (2317, ''Water''),
      (9828, ''Silicon''),
      (44, ''Enriched Uranium''),
      (3689, ''Mechanical Parts''),
      (9836, ''Consumer Electronics''),
      (9832, ''Construction Blocks''),
      (3683, ''Coolant''),
      (2867, ''Broadcast Node''),
      (2868, ''Camera Drones''),
      (2869, ''Synthetic Synapses''),
      (2870, ''Gel-Matrix Biopaste''),
      (2871, ''Hazmat Detection Systems''),
      (2872, ''Integrity Response Drones''),
      (2873, ''Organic Mortar Applicators''),
      (2874, ''Nano-Factory''),
      (2875, ''Sterile Conduits'')]"

definition PI_STORAGE_CAPACITY_UNITS :: "int \<Rightarrow> int option" where
  "PI_STORAGE_CAPACITY_UNITS = map_of [(2524, 10000), (2544, 10000), (2256, 12000)]"

section \<open>Timestamps and product names\<close>

text \<open>
  \<^verbatim>\<open>parse_utc_timestamp(value)\<close>: a falsy value gives \<^verbatim>\<open>None\<close>; on a truthy value
  that is not a string \<^verbatim>\<open>value.replace\<close> raises \<^verbatim>\<open>AttributeError\<close>, which the
  \<^verbatim>\<open>except ValueError\<close> does not catch; a \<^verbatim>\<open>ValueError\<close> of the library gives
  \<^verbatim>\<open>None\<close>, any other exception of the library escapes.
\<close>

definition parse_utc_timestamp :: "pylib \<Rightarrow> pyval \<Rightarrow> py_error + int option" where
  "parse_utc_timestamp lib v =
     (if \<not> py_truthy v then Inr None
      else case v of
        PStr s \<Rightarrow>
          (case fromisoformat_utc lib (replace_Z s) of
             Inr t \<Rightarrow> Inr (Some t)
           | Inl e \<Rightarrow> (if e = ValueError then Inr None else Inl e))
      | _ \<Rightarrow> Inl AttributeError)"

text \<open>
  \<^verbatim>\<open>resolve_pi_product_name(type_id)\<close>: \<^verbatim>\<open>PI_PRODUCTS.get(type_id, f"type_id:{type_id}")\<close>
  unless the id is \<^verbatim>\<open>None\<close>; an unhashable id raises \<^verbatim>\<open>TypeError\<close>.
\<close>

definition resolve_pi_product_name :: "pylib \<Rightarrow> pyval \<Rightarrow> py_error + string" where
  "resolve_pi_product_name lib type_id =
     (if type_id = PNone then Inr ''unknown''
      else case table_key type_id of
        Inl e \<Rightarrow> Inl e
      | Inr k \<Rightarrow>
          Inr (case Option.bind k PI_PRODUCTS of
                 Some name \<Rightarrow> name
               | None \<Rightarrow> ''type_id:'' @ py_str lib type_id))"

section \<open>Extractors\<close>

record extractor_entry =
  product_name :: string
  product_type_id :: pyval
  expiry :: pyval
  hours_remaining :: "rat option"
  status :: string

text \<open>
  \<^verbatim>\<open>round((expiry_dt - now).total_seconds() / 3600.0, 2)\<close>, both instants in
  microseconds since the epoch.
\<close>

definition hours_until :: "int \<Rightarrow> int \<Rightarrow> rat" where
  "hours_until expiry_dt now = py_round2 ((of_int (expiry_dt - now) / 1000000) / 3600)"

text \<open>
  The body of the loop over the pins that builds \<^verbatim>\<open>extractors\<close> and
  \<^verbatim>\<open>attention_reasons\<close>: \<open>None\<close> for a pin the loop skips, else the entry appended
  and the reasons appended (none or one).
\<close>

definition extractor_step ::
  "pylib \<Rightarrow> int \<Rightarrow> pyval \<Rightarrow> py_error + (extractor_entry \<times> string list) option" where
  "extractor_step lib now pin =
     (case pin of
        PDict p \<Rightarrow>
          (case dict_get p ''extractor_details'' of
             PDict extractor \<Rightarrow>
               (let product_type_id = dict_get extractor ''product_type_id'';
                    expiry = dict_get p ''expiry_time''
                in case parse_utc_timestamp lib expiry of
                     Inl e \<Rightarrow> Inl e
                   | Inr expiry_dt \<Rightarrow>
                       (let hours_remaining = map_option (\<lambda>t. hours_until t now) expiry_dt;
                            status =
                              (case hours_remaining of
                                 None \<Rightarrow> ''idle''
                               | Some h \<Rightarrow> if 0 < h then ''running'' else ''expired'')
                        in case resolve_pi_product_name lib product_type_id of
                             Inl e \<Rightarrow> Inl e
                           | Inr name \<Rightarrow>
                               Inr (Some
                                 (\<lparr>product_name = name,
                                    product_type_id = product_type_id,
                                    expiry = expiry,
                                    hours_remaining = hours_remaining,
                                    status = status\<rparr>,
                                  if status = ''expired'' then [''Extractor already expired'']
                                  else (case hours_remaining of
                                          None \<Rightarrow> []
                                        | Some h \<Rightarrow>
                                            if h \<le> 6
                                            then [''Extractor expires in '' @ py_repr lib (PFloat h) @ ''h'']
                                            else [])))))
           | _ \<Rightarrow> Inr None)
      | _ \<Rightarrow> Inr None)"

fun extractor_loop ::
  "pylib \<Rightarrow> int \<Rightarrow> pyval list \<Rightarrow> extractor_entry list \<times> string list
     \<Rightarrow> py_error + extractor_entry list \<times> string list" where
  "extractor_loop lib now [] acc = Inr acc"
| "extractor_loop lib now (pin # pins) acc =
     (case extractor_step lib now pin of
        Inl e \<Rightarrow> Inl e
      | Inr None \<Rightarrow> extractor_loop lib now pins acc
      | Inr (Some (entry, reasons)) \<Rightarrow>
          extractor_loop lib now pins (fst acc @ [entry], snd acc @ reasons))"

section \<open>Routes and factories\<close>

type_synonym pin_map = "int \<Rightarrow> pyval list option"

text \<open>\<^verbatim>\<open>m.get(k, [])\<close> and \<^verbatim>\<open>m.setdefault(k, []).append(v)\<close>.\<close>

definition get_list :: "pin_map \<Rightarrow> int \<Rightarrow> pyval list" where
  "get_list m k = (case m k of None \<Rightarrow> [] | Some xs \<Rightarrow> xs)"

definition setdefault_append :: "pin_map \<Rightarrow> int \<Rightarrow> pyval \<Rightarrow> pin_map" where
  "setdefault_append m k v = m(k \<mapsto> get_list m k @ [v])"

text \<open>The body of the loop over the routes, on the pair (incoming, outgoing).\<close>

definition route_step :: "pin_map \<times> pin_map \<Rightarrow> pyval \<Rightarrow> pin_map \<times> pin_map" where
  "route_step maps route =
     (case route of
        PDict r \<Rightarrow>
          (let source_pin = dict_get r ''source_pin_id'';
               destination_pin = dict_get r ''destination_pin_id'';
               content_type = dict_get r ''content_type_id'';
               outgoing =
                 (if is_int source_pin \<and> is_int content_type
                  then setdefault_append (snd maps) (int_val source_pin) content_type
                  else snd maps);
               incoming =
                 (if is_int destination_pin \<and> is_int content_type
                  then setdefault_append (fst maps) (int_val destination_pin) content_type
                  else fst maps)
           in (incoming, outgoing))
      | _ \<Rightarrow> maps)"

fun route_loop :: "pyval list \<Rightarrow> pin_map \<times> pin_map \<Rightarrow> pin_map \<times> pin_map" where
  "route_loop [] maps = maps"
| "route_loop (route # routes) maps = route_loop routes (route_step maps route)"

text \<open>
  \<^verbatim>\<open>set(xs)\<close> on ints and bools: an element equal to one already in the set is
  dropped (\<^verbatim>\<open>True == 1\<close>, \<^verbatim>\<open>False == 0\<close>), so the set keeps the first of equal
  elements. \<^verbatim>\<open>sorted\<close> then orders them by value; the values being distinct, the
  order the set iterates in does not show.
\<close>

definition set_add :: "pyval \<Rightarrow> pyval list \<Rightarrow> pyval list" where
  "set_add x acc = (if int_val x \<in> int_val ` set acc then acc else acc @ [x])"

definition py_set :: "pyval list \<Rightarrow> pyval list" where
  "py_set xs = fold set_add xs []"

definition sorted_set :: "pyval list \<Rightarrow> pyval list" where
  "sorted_set xs = sort_key int_val (py_set xs)"

text \<open>Running a fallible function over a list, stopping at the first exception.\<close>

fun collect :: "('a \<Rightarrow> py_error + 'b) \<Rightarrow> 'a list \<Rightarrow> py_error + 'b list" where
  "collect f [] = Inr []"
| "collect f (x # xs) =
     (case f x of
        Inl e \<Rightarrow> Inl e
      | Inr y \<Rightarrow> (case collect f xs of Inl e \<Rightarrow> Inl e | Inr ys \<Rightarrow> Inr (y # ys)))"

text \<open>
  \<^verbatim>\<open>", ".join(resolve_pi_product_name(tid) for tid in types) if types else "unknown"\<close>.
\<close>

definition render_types :: "pylib \<Rightarrow> pyval list \<Rightarrow> py_error + string" where
  "render_types lib types =
     (if types = [] then Inr ''unknown''
      else case collect (resolve_pi_product_name lib) types of
        Inl e \<Rightarrow> Inl e
      | Inr names \<Rightarrow> Inr (join '', '' names))"

record factory_entry =
  factory_input :: string
  factory_output :: string
  factory_schematic :: string

text \<open>The body of the loop over the pins that builds \<^verbatim>\<open>factories\<close>.\<close>

definition factory_step ::
  "pylib \<Rightarrow> pin_map \<Rightarrow> pin_map \<Rightarrow> pyval \<Rightarrow> py_error + factory_entry option" where
  "factory_step lib incoming_by_pin outgoing_by_pin pin =
     (case pin of
        PDict p \<Rightarrow>
          (if \<not> dict_has p ''factory_details'' \<and> \<not> dict_has p ''schematic_id'' then Inr None
           else let pin_id = dict_get p ''pin_id''
             in if \<not> is_int pin_id then Inr None
                else let input_types = sorted_set (get_list incoming_by_pin (int_val pin_id));
                         output_types = sorted_set (get_list outgoing_by_pin (int_val pin_id));
                         schematic_id = dict_get p ''schematic_id''
                  in case render_types lib input_types of
                       Inl e \<Rightarrow> Inl e
                     | Inr inp \<Rightarrow>
                         (case render_types lib output_types of
                            Inl e \<Rightarrow> Inl e
                          | Inr out \<Rightarrow>
                              Inr (Some
                                \<lparr>factory_input = inp,
                                 factory_output = out,
                                 factory_schematic =
                                   (if schematic_id \<noteq> PNone
                                    then ''Schematic '' @ py_str lib schematic_id
                                    else ''unknown'')\<rparr>)))
      | _ \<Rightarrow> Inr None)"

fun factory_loop ::
  "pylib \<Rightarrow> pin_map \<Rightarrow> pin_map \<Rightarrow> pyval list \<Rightarrow> factory_entry list
     \<Rightarrow> py_error + factory_entry list" where
  "factory_loop lib inc out [] acc = Inr acc"
| "factory_loop lib inc out (pin # pins) acc =
     (case factory_step lib inc out pin of
        Inl e \<Rightarrow> Inl e
      | Inr None \<Rightarrow> factory_loop lib inc out pins acc
      | Inr (Some f) \<Rightarrow> factory_loop lib inc out pins (acc @ [f]))"

text \<open>The factories of a colony from its pins and routes, as the engine computes them.\<close>

definition factory_flows :: "pylib \<Rightarrow> pyval list \<Rightarrow> pyval list \<Rightarrow> py_error + factory_entry list" where
  "factory_flows lib pins routes =
     (let maps = route_loop routes (Map.empty, Map.empty)
      in factory_loop lib (fst maps) (snd maps) pins [])"

section \<open>Storage fill\<close>

text \<open>The inner loop of \<^verbatim>\<open>estimate_storage_fill_pct\<close> over the content entries.\<close>

fun total_amount_loop :: "pyval list \<Rightarrow> rat \<Rightarrow> rat" where
  "total_amount_loop [] total_amount = total_amount"
| "total_amount_loop (item # items) total_amount =
     total_amount_loop items
       (case item of
          PDict d \<Rightarrow>
            (let amount = dict_get d ''amount''
             in if is_number amount then total_amount + float_val amount else total_amount)
        | _ \<Rightarrow> total_amount)"

text \<open>
  The body of the outer loop: \<open>None\<close> for a pin the loop skips (\<^verbatim>\<open>continue\<close>), else
  the pin's \<^verbatim>\<open>fill\<close>.
\<close>

definition pin_fill :: "pyval \<Rightarrow> py_error + rat option" where
  "pin_fill pin =
     (case pin of
        PDict p \<Rightarrow>
          (case table_key (dict_get p ''type_id'') of
             Inl e \<Rightarrow> Inl e
           | Inr k \<Rightarrow>
               (case Option.bind k PI_STORAGE_CAPACITY_UNITS of
                  None \<Rightarrow> Inr None
                | Some capacity \<Rightarrow>
                    if capacity = 0 then Inr None
                    else let c = dict_get p ''contents'';
                             contents = (if py_truthy c then c else PList [])
                      in (case contents of
                            PList items \<Rightarrow>
                              Inr (Some (min 100
                                (py_round2 ((total_amount_loop items 0 / of_int capacity) * 100))))
                          | _ \<Rightarrow> Inr None)))
      | _ \<Rightarrow> Inr None)"

fun storage_loop :: "pyval list \<Rightarrow> rat option \<Rightarrow> py_error + rat option" where
  "storage_loop [] max_fill = Inr max_fill"
| "storage_loop (pin # pins) max_fill =
     (case pin_fill pin of
        Inl e \<Rightarrow> Inl e
      | Inr None \<Rightarrow> storage_loop pins max_fill
      | Inr (Some fill) \<Rightarrow>
          storage_loop pins
            (case max_fill of
               None \<Rightarrow> Some fill
             | Some m \<Rightarrow> if m < fill then Some fill else Some m))"

definition estimate_storage_fill_pct :: "pyval \<Rightarrow> py_error + rat option" where
  "estimate_storage_fill_pct pins =
     (case py_iter pins of Inl e \<Rightarrow> Inl e | Inr ps \<Rightarrow> storage_loop ps None)"

text \<open>The reason appended for the storage fill (none or one).\<close>

definition storage_reasons :: "pylib \<Rightarrow> rat option \<Rightarrow> string list" where
  "storage_reasons lib storage_fill_pct =
     (case storage_fill_pct of
        None \<Rightarrow> []
      | Some f \<Rightarrow>
          if 80 \<le> f then [''Storage/Launchpad at '' @ py_repr lib (PFloat f) @ ''%''] else [])"

section \<open>The engine\<close>

type_synonym details_map = "string \<Rightarrow> (string \<times> pyval) list option"

text \<open>
  \<^verbatim>\<open>details_map\<close>: from a dict, the entries whose value is a dict (the keys are
  strings, \<^verbatim>\<open>str(k)\<close> is \<open>k\<close>); from a list, one entry per dict item with a
  \<^verbatim>\<open>planet_id\<close>, holding the item's \<^verbatim>\<open>detail\<close> when that is a dict and the item
  itself otherwise, a later item replacing an earlier one under the same key; from
  anything else, the empty map.
\<close>

definition build_details_map :: "pylib \<Rightarrow> pyval \<Rightarrow> details_map" where
  "build_details_map lib planet_details =
     (case planet_details of
        PDict kvs \<Rightarrow>
          fold (\<lambda>kv m. case snd kv of PDict d \<Rightarrow> m(fst kv \<mapsto> d) | _ \<Rightarrow> m) kvs Map.empty
      | PList items \<Rightarrow>
          fold (\<lambda>item m.
                  case item of
                    PDict it \<Rightarrow>
                      (let planet_id = dict_get it ''planet_id'';
                           detail = (case dict_get it ''detail'' of PDict d \<Rightarrow> d | _ \<Rightarrow> it)
                       in if planet_id \<noteq> PNone then m(py_str lib planet_id \<mapsto> detail) else m)
                  | _ \<Rightarrow> m)
            items Map.empty
      | _ \<Rightarrow> Map.empty)"

record status_record =
  planet_id :: pyval
  planet_name :: pyval
  planet_type :: pyval
  solar_system_id :: pyval
  character :: pyval
  extractors :: "extractor_entry list"
  storage_fill_pct :: "rat option"
  factories :: "factory_entry list"
  needs_attention :: bool
  action_required :: string

text \<open>
  \<^verbatim>\<open>list(dict.fromkeys(xs))\<close>: the keys in insertion order, a key already present
  keeping its place.
\<close>

definition fromkeys :: "string list \<Rightarrow> string list" where
  "fromkeys xs = fold (\<lambda>x acc. if x \<in> set acc then acc else acc @ [x]) xs []"

text \<open>
  The body of the loop over \<^verbatim>\<open>planets_data\<close>: \<open>None\<close> for an entry that is not a
  dict, else the record appended to \<^verbatim>\<open>parsed\<close>. Every value of \<^verbatim>\<open>details_map\<close> is
  a dict, so the test \<^verbatim>\<open>isinstance(detail, dict)\<close> always holds.
\<close>

definition planet_status ::
  "pylib \<Rightarrow> int \<Rightarrow> details_map \<Rightarrow> pyval \<Rightarrow> py_error + status_record option" where
  "planet_status lib now dm planet =
     (case planet of
        PDict pl \<Rightarrow>
          (let planet_id = dict_get pl ''planet_id'';
               detail = (case dm (py_str lib planet_id) of None \<Rightarrow> [] | Some d \<Rightarrow> d);
               pins = dict_get_default detail ''pins'' (PList []);
               routes = dict_get_default detail ''routes'' (PList [])
           in case py_iter pins of
                Inl e \<Rightarrow> Inl e
              | Inr pin_list \<Rightarrow>
           (case extractor_loop lib now pin_list ([], []) of
                Inl e \<Rightarrow> Inl e
              | Inr ext \<Rightarrow>
           (case py_iter routes of
                Inl e \<Rightarrow> Inl e
              | Inr route_list \<Rightarrow>
           (case factory_flows lib pin_list route_list of
                Inl e \<Rightarrow> Inl e
              | Inr facs \<Rightarrow>
           (case estimate_storage_fill_pct pins of
                Inl e \<Rightarrow> Inl e
              | Inr fill \<Rightarrow>
                  (let attention_reasons = snd ext @ storage_reasons lib fill;
                       unique_reasons = fromkeys attention_reasons
                   in Inr (Some
                        \<lparr>planet_id = planet_id,
                         planet_name =
                           dict_get_default detail ''_planet_name''
                             (PStr (''Planet '' @ py_str lib planet_id)),
                         planet_type = dict_get pl ''planet_type'',
                         solar_system_id = dict_get pl ''solar_system_id'',
                         character = dict_get_default detail ''_character_name'' (PStr ''unknown''),
                         extractors = fst ext,
                         storage_fill_pct = fill,
                         factories = facs,
                         needs_attention = (unique_reasons \<noteq> []),
                         action_required =
                           (if unique_reasons \<noteq> [] then join ''; '' unique_reasons
                            else ''none'')\<rparr>)))))))
      | _ \<Rightarrow> Inr None)"

fun planets_loop ::
  "pylib \<Rightarrow> int \<Rightarrow> details_map \<Rightarrow> pyval list \<Rightarrow> status_record list
     \<Rightarrow> py_error + status_record list" where
  "planets_loop lib now dm [] parsed = Inr parsed"
| "planets_loop lib now dm (planet # planets) parsed =
     (case planet_status lib now dm planet of
        Inl e \<Rightarrow> Inl e
      | Inr None \<Rightarrow> planets_loop lib now dm planets parsed
      | Inr (Some r) \<Rightarrow> planets_loop lib now dm planets (parsed @ [r]))"

text \<open>
  \<^verbatim>\<open>parse_pi_status(planets_data, planet_details)\<close>. The instant \<open>now\<close> is what
  \<^verbatim>\<open>datetime.now(timezone.utc)\<close> returns when the engine reads the clock (line 313),
  in microseconds since the epoch. The result is the list returned, or the exception
  that escapes.
\<close>

definition parse_pi_status ::
  "pylib \<Rightarrow> int \<Rightarrow> pyval \<Rightarrow> pyval \<Rightarrow> py_error + status_record list" where
  "parse_pi_status lib now planets_data planet_details =
     (let dm = build_details_map lib planet_details
      in case py_iter planets_data of
           Inl e \<Rightarrow> Inl e
         | Inr planets \<Rightarrow> planets_loop lib now dm planets [])"

section \<open>A library instance for the examples\<close>

text \<open>
  The examples below run the engine on concrete inputs, so they need the library
  functions at the strings and floats they meet. \<open>float_repr2\<close> is Python's
  \<^verbatim>\<open>str(x)\<close> on a float with at most two decimals and a magnitude below \<open>10^16\<close>
  (\<^verbatim>\<open>90.0\<close>, \<^verbatim>\<open>5.5\<close>, \<^verbatim>\<open>0.01\<close>); \<open>example_fromiso\<close> agrees with
  \<^verbatim>\<open>datetime.fromisoformat(s).astimezone(timezone.utc)\<close> on the timestamps listed
  and treats every other string as unparseable.
\<close>

definition float_repr2 :: "rat \<Rightarrow> string" where
  "float_repr2 x =
     (let n = nat \<lfloor>\<bar>x\<bar> * 100\<rfloor>; c = n mod 100
      in (if x < 0 then [CHR ''-''] else []) @ str_nat (n div 100) @ [CHR ''.'']
         @ (if c mod 10 = 0 then [digit_char (c div 10)]
            else [digit_char (c div 10), digit_char (c mod 10)]))"

definition example_fromiso :: "string \<Rightarrow> py_error + int" where
  "example_fromiso s =
     (if s = ''2024-01-01T00:00:00+00:00'' then Inr 1704067200000000
      else if s = ''2024-01-01T00:00:10+00:00'' then Inr 1704067210000000
      else if s = ''2024-01-01T06:00:00+00:00'' then Inr 1704088800000000
      else if s = ''2024-01-01T12:00:00+00:00'' then Inr 1704110400000000
      else if s = ''2023-12-31T23:00:00+00:00'' then Inr 1704063600000000
      else Inl ValueError)"

definition example_lib :: pylib where
  "example_lib =
     \<lparr>fromisoformat_utc = example_fromiso,
      py_repr = (\<lambda>v. case v of PFloat x \<Rightarrow> float_repr2 x | _ \<Rightarrow> ''?'')\<rparr>"

text \<open>The instant 2024-01-01T00:00:00 UTC.\<close>

definition example_now :: int where
  "example_now = 1704067200000000"

section \<open>The specification's notions and the inputs of the examples\<close>


text \<open>An extractor pin producing type 2393 with the given \<^verbatim>\<open>expiry_time\<close>.\<close>

definition example_extractor_pin :: "pyval \<Rightarrow> pyval" where
  "example_extractor_pin e =
     PDict [(''extractor_details'', PDict [(''product_type_id'', PInt 2393)]),
            (''expiry_time'', e)]"

text \<open>The entry the engine builds for such a pin.\<close>

definition example_entry :: "pyval \<Rightarrow> rat option \<Rightarrow> string \<Rightarrow> extractor_entry" where
  "example_entry e h s =
     \<lparr>product_name = ''Aqueous Liquids'', product_type_id = PInt 2393, expiry = e,
      hours_remaining = h, status = s\<rparr>"


definition example_details :: "pyval list \<Rightarrow> pyval" where
  "example_details pins = PDict [(''1'', PDict [(''pins'', PList pins)])]"




text \<open>
  De-duplication as the specification words it: every string once, at the place of its
  first occurrence.
\<close>

fun first_occurrences :: "string list \<Rightarrow> string list" where
  "first_occurrences [] = []"
| "first_occurrences (x # xs) = x # first_occurrences (removeAll x xs)"

text \<open>The reasons a pin contributes in the loop over the pins (none when it is skipped).\<close>

definition pin_reasons :: "pylib \<Rightarrow> int \<Rightarrow> pyval \<Rightarrow> string list" where
  "pin_reasons lib now pin =
     (case extractor_step lib now pin of Inr (Some (entry, reasons)) \<Rightarrow> reasons | _ \<Rightarrow> [])"

text \<open>
  A storage pin of type 2544 (capacity 10000) with the given \<^verbatim>\<open>contents\<close>; a colony
  with two extractors that expired an hour ago and a launchpad filled to 90 percent,
  and the record the engine builds for it.
\<close>

definition example_storage_pin :: "pyval \<Rightarrow> pyval" where
  "example_storage_pin contents = PDict [(''type_id'', PInt 2544), (''contents'', contents)]"

definition example_busy_pins :: "pyval list" where
  "example_busy_pins =
     [example_extractor_pin (PStr ''2023-12-31T23:00:00Z''),
      example_extractor_pin (PStr ''2023-12-31T23:00:00Z''),
      example_storage_pin (PList [PDict [(''type_id'', PInt 2393), (''amount'', PInt 9000)]])]"

definition example_busy_record :: status_record where
  "example_busy_record =
     \<lparr>planet_id = PInt 1, planet_name = PStr ''Planet 1'', planet_type = PNone,
      solar_system_id = PNone, character = PStr ''unknown'',
      extractors =
        [example_entry (PStr ''2023-12-31T23:00:00Z'') (Some (- 1)) ''expired'',
         example_entry (PStr ''2023-12-31T23:00:00Z'') (Some (- 1)) ''expired''],
      storage_fill_pct = Some 90, factories = [], needs_attention = True,
      action_required = ''Extractor already expired; Storage/Launchpad at 90.0%''\<rparr>"

text \<open>
  Storage fill as the specification words it. A content entry is numeric when it is a
  record whose \<^verbatim>\<open>amount\<close> is an int, a float or a bool (Python counts \<^verbatim>\<open>True\<close> and
  \<^verbatim>\<open>False\<close> as the integers 1 and 0); \<open>entry_amount\<close> is its quantity.
\<close>

definition numeric_entry :: "pyval \<Rightarrow> bool" where
  "numeric_entry item = (case item of PDict d \<Rightarrow> is_number (dict_get d ''amount'') | _ \<Rightarrow> False)"

definition entry_amount :: "pyval \<Rightarrow> rat" where
  "entry_amount item = (case item of PDict d \<Rightarrow> float_val (dict_get d ''amount'') | _ \<Rightarrow> 0)"

text \<open>
  The content entries of a \<^verbatim>\<open>contents\<close> field: the list it holds, no entries when
  the field is absent, null or otherwise falsy, and undefined when it holds anything
  else.
\<close>

definition contents_entries :: "pyval \<Rightarrow> pyval list option" where
  "contents_entries c =
     (if \<not> py_truthy c then Some [] else case c of PList items \<Rightarrow> Some items | _ \<Rightarrow> None)"

text \<open>
  The capacity of a pin: the capacity table's entry for its type identifier, when the
  pin is a record and the table has one.
\<close>

definition pin_capacity :: "pyval \<Rightarrow> int option" where
  "pin_capacity pin =
     (case pin of
        PDict p \<Rightarrow>
          (case table_key (dict_get p ''type_id'') of
             Inr (Some k) \<Rightarrow> PI_STORAGE_CAPACITY_UNITS k
           | _ \<Rightarrow> None)
      | _ \<Rightarrow> None)"

definition pin_entries :: "pyval \<Rightarrow> pyval list option" where
  "pin_entries pin =
     (case pin of PDict p \<Rightarrow> contents_entries (dict_get p ''contents'') | _ \<Rightarrow> None)"

text \<open>
  The fill ratio of a pin: total quantity divided by capacity, times 100, clamped to at
  most 100 and rounded to two decimals; the colony's fill is the maximum over the pins
  that have one.
\<close>

definition spec_fill :: "pyval \<Rightarrow> rat option" where
  "spec_fill pin =
     (case pin_capacity pin of
        None \<Rightarrow> None
      | Some capacity \<Rightarrow>
          (case pin_entries pin of
             None \<Rightarrow> None
           | Some items \<Rightarrow>
               Some (py_round2 (min 100
                 (sum_list (map entry_amount (filter numeric_entry items))
                    / of_int capacity * 100)))))"


text \<open>A pin whose type identifier can be looked up in a table: not a list, not a dict.\<close>

definition hashable_type :: "pyval \<Rightarrow> bool" where
  "hashable_type pin =
     (case pin of PDict p \<Rightarrow> table_key (dict_get p ''type_id'') \<noteq> Inl TypeError | _ \<Rightarrow> True)"

text \<open>The running maximum the loop over the pins keeps.\<close>

fun max_fill_of :: "rat option \<Rightarrow> rat list \<Rightarrow> rat option" where
  "max_fill_of m [] = m"
| "max_fill_of m (f # fs) = max_fill_of (case m of None \<Rightarrow> Some f | Some x \<Rightarrow> Some (max x f)) fs"




text \<open>
  Route aggregation as the specification words it: a route counts under its source pin
  \<open>k\<close> for the outgoing map when it is a record whose source-pin identifier and
  commodity-type identifier are integers (Python's \<^verbatim>\<open>int\<close>, which includes
  \<^verbatim>\<open>bool\<close>), and under its destination pin for the incoming map likewise; the types
  of a pin are those of the routes that count under it, in route order.
\<close>

definition route_type :: "pyval \<Rightarrow> pyval" where
  "route_type route = (case route of PDict r \<Rightarrow> dict_get r ''content_type_id'' | _ \<Rightarrow> PNone)"

definition outgoing_eligible :: "pyval \<Rightarrow> int \<Rightarrow> bool" where
  "outgoing_eligible route k =
     (case route of
        PDict r \<Rightarrow>
          is_int (dict_get r ''source_pin_id'') \<and> is_int (dict_get r ''content_type_id'')
          \<and> int_val (dict_get r ''source_pin_id'') = k
      | _ \<Rightarrow> False)"

definition incoming_eligible :: "pyval \<Rightarrow> int \<Rightarrow> bool" where
  "incoming_eligible route k =
     (case route of
        PDict r \<Rightarrow>
          is_int (dict_get r ''destination_pin_id'') \<and> is_int (dict_get r ''content_type_id'')
          \<and> int_val (dict_get r ''destination_pin_id'') = k
      | _ \<Rightarrow> False)"

definition outgoing_types :: "pyval list \<Rightarrow> int \<Rightarrow> pyval list" where
  "outgoing_types routes k = map route_type (filter (\<lambda>r. outgoing_eligible r k) routes)"

definition incoming_types :: "pyval list \<Rightarrow> int \<Rightarrow> pyval list" where
  "incoming_types routes k = map route_type (filter (\<lambda>r. incoming_eligible r k) routes)"

text \<open>A route whose commodity-type identifier is a boolean; a value that is a plain int.\<close>

definition bool_typed :: "pyval \<Rightarrow> bool" where
  "bool_typed route = (case route_type route of PBool b \<Rightarrow> True | _ \<Rightarrow> False)"

definition plain_int :: "pyval \<Rightarrow> bool" where
  "plain_int v = (case v of PInt n \<Rightarrow> True | _ \<Rightarrow> False)"

text \<open>
  A factory pin 7 and routes around it: three well-formed routes, one whose source is
  not an integer (it still counts for its destination), a repeated route and an entry
  that is not a record.
\<close>

definition example_factory_pin :: pyval where
  "example_factory_pin = PDict [(''pin_id'', PInt 7), (''schematic_id'', PInt 66)]"

definition example_route :: "pyval \<Rightarrow> pyval \<Rightarrow> pyval \<Rightarrow> pyval" where
  "example_route src dst ct =
     PDict [(''source_pin_id'', src), (''destination_pin_id'', dst), (''content_type_id'', ct)]"

definition example_routes :: "pyval list" where
  "example_routes =
     [example_route (PInt 5) (PInt 7) (PInt 2390),
      example_route (PInt 6) (PInt 7) (PInt 2389),
      example_route (PInt 7) (PInt 9) (PInt 2396),
      example_route (PStr ''x'') (PInt 7) (PInt 2397),
      example_route (PInt 5) (PInt 7) (PInt 2390),
      PStr ''junk'']"


text \<open>
  Inputs on which no guard of the engine is missing. An expiry value is safe when it is
  falsy, or a string on which the library returns an instant or raises
  \<^verbatim>\<open>ValueError\<close>; a pin is safe when it is not a record, or its type identifier is
  hashable and, if it carries an extraction descriptor, its expiry value is safe and
  the descriptor's product type identifier is hashable; a detail is safe when its
  \<^verbatim>\<open>pins\<close> and \<^verbatim>\<open>routes\<close> can be iterated and its pins are safe.
\<close>

definition safe_expiry :: "pylib \<Rightarrow> pyval \<Rightarrow> bool" where
  "safe_expiry lib v =
     (case v of
        PStr s \<Rightarrow>
          s = [] \<or> (case fromisoformat_utc lib (replace_Z s) of
                      Inr t \<Rightarrow> True
                    | Inl e \<Rightarrow> e = ValueError)
      | _ \<Rightarrow> \<not> py_truthy v)"

definition safe_pin :: "pylib \<Rightarrow> pyval \<Rightarrow> bool" where
  "safe_pin lib pin =
     (case pin of
        PDict p \<Rightarrow>
          table_key (dict_get p ''type_id'') \<noteq> Inl TypeError
          \<and> (case dict_get p ''extractor_details'' of
                PDict x \<Rightarrow>
                  safe_expiry lib (dict_get p ''expiry_time'')
                  \<and> table_key (dict_get x ''product_type_id'') \<noteq> Inl TypeError
              | _ \<Rightarrow> True)
      | _ \<Rightarrow> True)"

definition safe_detail :: "pylib \<Rightarrow> (string \<times> pyval) list \<Rightarrow> bool" where
  "safe_detail lib d =
     (case py_iter (dict_get_default d ''pins'' (PList [])) of
        Inl e \<Rightarrow> False
      | Inr pins \<Rightarrow>
          list_all (safe_pin lib) pins
          \<and> (case py_iter (dict_get_default d ''routes'' (PList [])) of
                Inl e \<Rightarrow> False
              | Inr routes \<Rightarrow> True))"

text \<open>The colony identifiers of the record-shaped entries of a planets list, in order.\<close>

definition record_ids :: "pyval list \<Rightarrow> pyval list" where
  "record_ids planets =
     concat (map (\<lambda>planet. case planet of PDict pl \<Rightarrow> [dict_get pl ''planet_id''] | _ \<Rightarrow> [])
       planets)"


section \<open>Timestamps and rounding\<close>









section \<open>Extractor entries\<close>

lemma extractor_step_shape:
  assumes "extractor_step lib now pin = Inr (Some (entry, reasons))"
  obtains p extractor t_opt name where
    "pin = PDict p" "dict_get p ''extractor_details'' = PDict extractor"
    "parse_utc_timestamp lib (dict_get p ''expiry_time'') = Inr t_opt"
    "resolve_pi_product_name lib (dict_get extractor ''product_type_id'') = Inr name"
    "expiry entry = dict_get p ''expiry_time''"
    "product_name entry = name"
    "product_type_id entry = dict_get extractor ''product_type_id''"
    "hours_remaining entry = map_option (\<lambda>t. hours_until t now) t_opt"
    "status entry = (case hours_remaining entry of None \<Rightarrow> ''idle''
                       | Some h \<Rightarrow> if 0 < h then ''running'' else ''expired'')"
    "reasons = (if status entry = ''expired'' then [''Extractor already expired'']
                else case hours_remaining entry of None \<Rightarrow> []
                  | Some h \<Rightarrow>
                      if h \<le> 6 then [''Extractor expires in '' @ py_repr lib (PFloat h) @ ''h'']
                      else [])"
  using assms
  by (auto simp: extractor_step_def Let_def split: pyval.splits sum.splits option.splits)

lemma example_step_6h:
  "extractor_step example_lib example_now (example_extractor_pin (PStr ''2024-01-01T06:00:00Z'')) =
     Inr (Some (example_entry (PStr ''2024-01-01T06:00:00Z'') (Some 6) ''running'',
                [''Extractor expires in 6.0h'']))"
  by (simp add: extractor_step_def example_extractor_pin_def example_entry_def dict_get_def
      parse_utc_timestamp_def replace_Z_def example_lib_def example_fromiso_def example_now_def
      hours_until_def py_round2_def resolve_pi_product_name_def PI_PRODUCTS_def float_repr2_def
      str_nat.simps digit_char_def Let_def)


lemma example_step_past:
  "extractor_step example_lib example_now (example_extractor_pin (PStr ''2023-12-31T23:00:00Z'')) =
     Inr (Some (example_entry (PStr ''2023-12-31T23:00:00Z'') (Some (- 1)) ''expired'',
                [''Extractor already expired'']))"
  by (simp add: extractor_step_def example_extractor_pin_def example_entry_def dict_get_def
      parse_utc_timestamp_def replace_Z_def example_lib_def example_fromiso_def example_now_def
      hours_until_def py_round2_def resolve_pi_product_name_def PI_PRODUCTS_def Let_def)


section \<open>The evaluation time\<close>







section \<open>The loop over the planets\<close>

lemma planets_loop_result:
  "planets_loop lib now dm planets acc = Inr rs \<Longrightarrow>
     rs = acc @ concat (map (\<lambda>planet. case planet_status lib now dm planet of
                                         Inr (Some r) \<Rightarrow> [r] | _ \<Rightarrow> []) planets)"
proof (induction planets arbitrary: acc)
  case Nil
  then show ?case by simp
next
  case (Cons planet planets)
  show ?case
  proof (cases "planet_status lib now dm planet")
    case (Inl e)
    then show ?thesis using Cons.prems by simp
  next
    case (Inr x)
    show ?thesis
    proof (cases x)
      case None
      with Inr Cons.prems have "planets_loop lib now dm planets acc = Inr rs" by simp
      from Cons.IH [OF this] show ?thesis using Inr None by simp
    next
      case (Some r)
      with Inr Cons.prems have "planets_loop lib now dm planets (acc @ [r]) = Inr rs" by simp
      from Cons.IH [OF this] show ?thesis using Inr Some by simp
    qed
  qed
qed

lemma planets_loop_total:
  "planets_loop lib now dm planets acc = Inr rs \<Longrightarrow> planet \<in> set planets \<Longrightarrow>
     \<exists>r. planet_status lib now dm planet = Inr r"
proof (induction planets arbitrary: acc)
  case Nil
  then show ?case by simp
next
  case (Cons p planets)
  then show ?case by (auto split: sum.splits option.splits)
qed


section \<open>Attention reasons\<close>

lemma removeAll_filter_commute: "removeAll x (filter P xs) = filter (\<lambda>y. y \<noteq> x \<and> P y) xs"
  by (induction xs) auto

lemma fromkeys_fold:
  "fold (\<lambda>x acc. if x \<in> set acc then acc else acc @ [x]) xs acc =
     acc @ first_occurrences (filter (\<lambda>x. x \<notin> set acc) xs)"
proof (induction xs arbitrary: acc)
  case Nil
  show ?case by simp
next
  case (Cons x xs)
  show ?case
  proof (cases "x \<in> set acc")
    case True
    then show ?thesis by (simp add: Cons.IH)
  next
    case False
    have "filter (\<lambda>y. y \<notin> set (acc @ [x])) xs = removeAll x (filter (\<lambda>y. y \<notin> set acc) xs)"
      by (simp add: removeAll_filter_commute)
    then show ?thesis using False by (simp add: Cons.IH)
  qed
qed

lemma fromkeys_first_occurrences: "fromkeys xs = first_occurrences xs"
  by (simp add: fromkeys_def fromkeys_fold)

lemma set_first_occurrences: "set (first_occurrences xs) = set xs"
  by (induction xs rule: first_occurrences.induct) auto

lemma distinct_first_occurrences: "distinct (first_occurrences xs)"
  by (induction xs rule: first_occurrences.induct) (auto simp: set_first_occurrences)

lemma pin_reasons_length: "length (pin_reasons lib now pin) \<le> 1"
proof (cases "extractor_step lib now pin")
  case (Inl e)
  then show ?thesis by (simp add: pin_reasons_def)
next
  case (Inr x)
  show ?thesis
  proof (cases x)
    case None
    with Inr show ?thesis by (simp add: pin_reasons_def)
  next
    case (Some er)
    obtain entry reasons where er: "er = (entry, reasons)" by (cases er)
    with Inr Some have "extractor_step lib now pin = Inr (Some (entry, reasons))" by simp
    then have "length reasons \<le> 1"
      by (elim extractor_step_shape) (auto split: option.splits)
    with Inr Some er show ?thesis by (simp add: pin_reasons_def)
  qed
qed

lemma extractor_loop_reasons:
  "extractor_loop lib now pins acc = Inr ext \<Longrightarrow>
     snd ext = snd acc @ concat (map (pin_reasons lib now) pins)"
proof (induction pins arbitrary: acc)
  case Nil
  then show ?case by auto
next
  case (Cons pin pins)
  show ?case
  proof (cases "extractor_step lib now pin")
    case (Inl e)
    then show ?thesis using Cons.prems by simp
  next
    case (Inr x)
    show ?thesis
    proof (cases x)
      case None
      with Inr Cons.prems have "extractor_loop lib now pins acc = Inr ext" by simp
      from Cons.IH [OF this] show ?thesis using Inr None by (simp add: pin_reasons_def)
    next
      case (Some er)
      obtain entry reasons where er: "er = (entry, reasons)" by (cases er)
      with Some Inr Cons.prems
      have "extractor_loop lib now pins (fst acc @ [entry], snd acc @ reasons) = Inr ext" by simp
      from Cons.IH [OF this] show ?thesis using Inr Some er by (simp add: pin_reasons_def)
    qed
  qed
qed

lemma example_storage_step:
  "extractor_step lib now (example_storage_pin c) = Inr None"
  by (simp add: extractor_step_def example_storage_pin_def dict_get_def)

lemma example_extractor_no_factory: "factory_step lib inc out (example_extractor_pin e) = Inr None"
  by (simp add: factory_step_def example_extractor_pin_def dict_has_def)

lemma example_storage_no_factory: "factory_step lib inc out (example_storage_pin c) = Inr None"
  by (simp add: factory_step_def example_storage_pin_def dict_has_def)

lemma example_extractor_no_fill: "pin_fill (example_extractor_pin e) = Inr None"
  by (simp add: pin_fill_def example_extractor_pin_def dict_get_def)

lemma example_storage_fill_90:
  "pin_fill (example_storage_pin (PList [PDict [(''type_id'', PInt 2393), (''amount'', PInt 9000)]]))
     = Inr (Some 90)"
  by (simp add: pin_fill_def example_storage_pin_def dict_get_def PI_STORAGE_CAPACITY_UNITS_def
      py_round2_def)

lemma example_busy_status:
  "planet_status example_lib example_now
     (build_details_map example_lib (example_details example_busy_pins))
     (PDict [(''planet_id'', PInt 1)]) = Inr (Some example_busy_record)"
proof -
  have dm: "build_details_map example_lib (example_details example_busy_pins) ''1''
              = Some [(''pins'', PList example_busy_pins)]"
    by (simp add: build_details_map_def example_details_def)
  have key: "str_int 1 = ''1''"
    by (simp add: str_int_def str_nat.simps digit_char_def)
  have ext: "extractor_loop example_lib example_now example_busy_pins ([], []) =
      Inr ([example_entry (PStr ''2023-12-31T23:00:00Z'') (Some (- 1)) ''expired'',
            example_entry (PStr ''2023-12-31T23:00:00Z'') (Some (- 1)) ''expired''],
           [''Extractor already expired'', ''Extractor already expired''])"
    by (simp add: example_busy_pins_def example_step_past example_storage_step)
  have facs: "factory_flows example_lib example_busy_pins [] = Inr []"
    by (simp add: factory_flows_def example_busy_pins_def example_extractor_no_factory example_storage_no_factory)
  have fill: "estimate_storage_fill_pct (PList example_busy_pins) = Inr (Some 90)"
    by (simp add: estimate_storage_fill_pct_def example_busy_pins_def example_extractor_no_fill example_storage_fill_90)
  have msg: "storage_reasons example_lib (Some 90) = [''Storage/Launchpad at 90.0%'']"
    by (simp add: storage_reasons_def example_lib_def float_repr2_def str_nat.simps digit_char_def)
  show ?thesis
    by (simp add: planet_status_def key dm dict_get_default_def dict_get_def ext facs fill msg
        fromkeys_def example_busy_record_def Let_def)
qed

section \<open>Storage fill\<close>

lemma total_amount_loop_sum:
  "total_amount_loop items acc = acc + sum_list (map entry_amount (filter numeric_entry items))"
  by (induction items arbitrary: acc)
     (auto simp: entry_amount_def numeric_entry_def Let_def split: pyval.splits)

lemma capacity_nonzero: "PI_STORAGE_CAPACITY_UNITS k = Some c \<Longrightarrow> c \<noteq> 0"
  by (auto simp: PI_STORAGE_CAPACITY_UNITS_def split: if_splits)

lemma py_round2_le_100: "x \<le> 100 \<Longrightarrow> py_round2 x \<le> 100"
proof -
  assume x: "x \<le> 100"
  define y where "y = x * 100"
  define f where "f = \<lfloor>y\<rfloor>"
  define d where "d = y - of_int f"
  define k where "k = (if d < 1 / 2 then f else if 1 / 2 < d then f + 1 else if even f then f else f + 1)"
  have r: "py_round2 x = of_int k / 100"
    by (simp add: py_round2_def Let_def y_def f_def d_def k_def)
  have y: "y \<le> 10000" using x by (simp add: y_def)
  then have f: "f \<le> 10000" unfolding f_def by (simp add: floor_le_iff)
  have "k \<le> 10000"
  proof (cases "f = 10000")
    case True
    then have "d \<le> 0" using y by (simp add: d_def)
    then show ?thesis using True by (simp add: k_def)
  next
    case False
    then have "f + 1 \<le> 10000" using f by simp
    then show ?thesis by (auto simp: k_def)
  qed
  then have "(of_int k :: rat) \<le> 10000" by (metis of_int_le_iff of_int_numeral)
  then show ?thesis by (simp add: r)
qed

lemma py_round2_ge_100: "100 \<le> x \<Longrightarrow> 100 \<le> py_round2 x"
proof -
  assume x: "100 \<le> x"
  define y where "y = x * 100"
  define f where "f = \<lfloor>y\<rfloor>"
  define d where "d = y - of_int f"
  define k where "k = (if d < 1 / 2 then f else if 1 / 2 < d then f + 1 else if even f then f else f + 1)"
  have r: "py_round2 x = of_int k / 100"
    by (simp add: py_round2_def Let_def y_def f_def d_def k_def)
  have y: "10000 \<le> y" using x by (simp add: y_def)
  then have f: "10000 \<le> f" unfolding f_def by (simp add: le_floor_iff)
  then have "10000 \<le> k" by (auto simp: k_def)
  then have "(10000 :: rat) \<le> of_int k" by (metis of_int_le_iff of_int_numeral)
  then show ?thesis by (simp add: r)
qed

lemma py_round2_100: "py_round2 100 = 100"
  by (simp add: py_round2_def)

lemma round_clamp_commute: "min 100 (py_round2 x) = py_round2 (min 100 x)"
proof (cases "x \<le> 100")
  case True
  then show ?thesis using py_round2_le_100 [of x] by (simp add: min_def)
next
  case False
  then have "100 \<le> x" by simp
  then show ?thesis using py_round2_ge_100 [of x] False by (simp add: min_def py_round2_100)
qed

lemma pin_fill_spec:
  assumes "hashable_type pin"
  shows "pin_fill pin = Inr (spec_fill pin)"
proof (cases pin)
  case (PDict p)
  show ?thesis
  proof (cases "table_key (dict_get p ''type_id'')")
    case (Inl e)
    then show ?thesis using assms PDict
      by (cases "dict_get p ''type_id''") (auto simp: hashable_type_def)
  next
    case (Inr ko)
    show ?thesis
    proof (cases "Option.bind ko PI_STORAGE_CAPACITY_UNITS")
      case None
      then have "pin_capacity pin = None"
        using PDict Inr by (cases ko) (auto simp: pin_capacity_def)
      then show ?thesis using PDict Inr None by (simp add: pin_fill_def spec_fill_def)
    next
      case (Some cap)
      then obtain k where k: "ko = Some k" "PI_STORAGE_CAPACITY_UNITS k = Some cap"
        by (cases ko) auto
      then have cap: "pin_capacity pin = Some cap" "cap \<noteq> 0"
        using PDict Inr by (auto simp: pin_capacity_def dest: capacity_nonzero)
      show ?thesis
      proof (cases "contents_entries (dict_get p ''contents'')")
        case None
        then have "pin_entries pin = None" using PDict by (simp add: pin_entries_def)
        moreover have "pin_fill pin = Inr None"
          using None PDict Inr Some cap
          by (auto simp: pin_fill_def contents_entries_def Let_def split: if_splits pyval.splits)
        ultimately show ?thesis using cap by (simp add: spec_fill_def)
      next
        case (Some items)
        then have ent: "pin_entries pin = Some items" using PDict by (simp add: pin_entries_def)
        have "pin_fill pin =
              Inr (Some (min 100 (py_round2 ((total_amount_loop items 0 / of_int cap) * 100))))"
          using Some PDict Inr \<open>Option.bind ko PI_STORAGE_CAPACITY_UNITS = Some cap\<close> cap
          by (auto simp: pin_fill_def contents_entries_def Let_def split: if_splits pyval.splits)
        then show ?thesis using ent cap
          by (simp add: spec_fill_def round_clamp_commute total_amount_loop_sum)
      qed
    qed
  qed
qed (simp_all add: pin_fill_def spec_fill_def pin_capacity_def)

lemma storage_loop_spec:
  "\<forall>pin\<in>set pins. hashable_type pin \<Longrightarrow>
     storage_loop pins m = Inr (max_fill_of m (List.map_filter spec_fill pins))"
proof (induction pins arbitrary: m)
  case Nil
  show ?case by (simp add: List.map_filter_simps)
next
  case (Cons pin pins)
  then have "pin_fill pin = Inr (spec_fill pin)"
    by (simp add: pin_fill_spec)
  with Cons show ?case by (auto simp: max_def List.map_filter_simps split: option.splits)
qed



lemma spec_fill_le_100: "spec_fill pin = Some f \<Longrightarrow> f \<le> 100"
  by (auto simp: spec_fill_def py_round2_le_100 split: option.splits)


lemma set_map_filter: "set (List.map_filter f xs) = {y. \<exists>x\<in>set xs. f x = Some y}"
  by (induction xs) (auto simp: List.map_filter_simps split: option.splits)





section \<open>Routes and factories\<close>

lemma get_list_setdefault_append:
  "get_list (setdefault_append m k v) k' = get_list m k' @ (if k' = k then [v] else [])"
  by (simp add: get_list_def setdefault_append_def)

lemma route_step_get:
  "get_list (snd (route_step maps r)) k =
     get_list (snd maps) k @ (if outgoing_eligible r k then [route_type r] else [])"
  "get_list (fst (route_step maps r)) k =
     get_list (fst maps) k @ (if incoming_eligible r k then [route_type r] else [])"
  by (cases r; auto simp: route_step_def Let_def get_list_setdefault_append
        outgoing_eligible_def incoming_eligible_def route_type_def)+

lemma route_loop_get:
  "get_list (snd (route_loop routes maps)) k = get_list (snd maps) k @ outgoing_types routes k"
  "get_list (fst (route_loop routes maps)) k = get_list (fst maps) k @ incoming_types routes k"
  by (induction routes arbitrary: maps)
     (simp_all add: route_step_get outgoing_types_def incoming_types_def)

lemma route_loop_empty:
  "get_list (snd (route_loop routes (Map.empty, Map.empty))) k = outgoing_types routes k"
  "get_list (fst (route_loop routes (Map.empty, Map.empty))) k = incoming_types routes k"
  by (simp_all add: route_loop_get) (simp_all add: get_list_def)

lemma set_add_props:
  "set (set_add x acc) \<subseteq> insert x (set acc)"
  "int_val ` set (set_add x acc) = insert (int_val x) (int_val ` set acc)"
  "distinct (map int_val acc) \<Longrightarrow> distinct (map int_val (set_add x acc))"
  by (auto simp: set_add_def)

lemma fold_set_add_subset: "set (fold set_add xs acc) \<subseteq> set acc \<union> set xs"
proof (induction xs arbitrary: acc)
  case Nil
  show ?case by simp
next
  case (Cons x xs)
  have "set (fold set_add xs (set_add x acc)) \<subseteq> set (set_add x acc) \<union> set xs"
    by (rule Cons.IH)
  also have "\<dots> \<subseteq> insert x (set acc) \<union> set xs"
    using set_add_props(1) [of x acc] by blast
  finally show ?case by auto
qed

lemma fold_set_add_values:
  "int_val ` set (fold set_add xs acc) = int_val ` set acc \<union> int_val ` set xs"
proof (induction xs arbitrary: acc)
  case Nil
  show ?case by simp
next
  case (Cons x xs)
  have "int_val ` set (fold set_add xs (set_add x acc))
          = int_val ` set (set_add x acc) \<union> int_val ` set xs"
    by (rule Cons.IH)
  then show ?case by (simp add: set_add_props(2))
qed

lemma fold_set_add_distinct:
  "distinct (map int_val acc) \<Longrightarrow> distinct (map int_val (fold set_add xs acc))"
proof (induction xs arbitrary: acc)
  case Nil
  then show ?case by simp
next
  case (Cons x xs)
  from Cons.prems have "distinct (map int_val (set_add x acc))" by (rule set_add_props(3))
  then have "distinct (map int_val (fold set_add xs (set_add x acc)))" by (rule Cons.IH)
  then show ?case by simp
qed

lemma py_set_props:
  "distinct (map int_val (py_set xs))"
  "set (py_set xs) \<subseteq> set xs"
  "int_val ` set (py_set xs) = int_val ` set xs"
  using fold_set_add_distinct [of "[]" xs] fold_set_add_subset [of xs "[]"]
    fold_set_add_values [of xs "[]"]
  by (simp_all add: py_set_def)

lemma sorted_set_props:
  "sorted (map int_val (sorted_set xs))"
  "distinct (map int_val (sorted_set xs))"
  "set (sorted_set xs) \<subseteq> set xs"
  "int_val ` set (sorted_set xs) = int_val ` set xs"
proof -
  show "sorted (map int_val (sorted_set xs))" by (simp add: sorted_set_def)
  have "mset (map int_val (sorted_set xs)) = mset (map int_val (py_set xs))"
    by (simp add: sorted_set_def)
  then show "distinct (map int_val (sorted_set xs))"
    using py_set_props(1) [of xs] by (metis mset_eq_imp_distinct_iff)
  show "set (sorted_set xs) \<subseteq> set xs" using py_set_props(2) by (simp add: sorted_set_def)
  show "int_val ` set (sorted_set xs) = int_val ` set xs"
    using py_set_props(3) by (simp add: sorted_set_def)
qed

lemma sorted_set_values:
  assumes "int_val ` set xs = int_val ` set ys"
  shows "map int_val (sorted_set xs) = map int_val (sorted_set ys)"
proof (rule sorted_distinct_set_unique)
  show "set (map int_val (sorted_set xs)) = set (map int_val (sorted_set ys))"
    using assms sorted_set_props(4) by simp
qed (simp_all add: sorted_set_props)

lemma plain_int_list: "\<forall>x\<in>set l. plain_int x \<Longrightarrow> map PInt (map int_val l) = l"
  by (induction l) (auto simp: plain_int_def split: pyval.splits)

lemma sorted_set_plain:
  assumes "set xs = set ys" and "\<forall>x\<in>set xs. plain_int x"
  shows "sorted_set xs = sorted_set ys"
proof -
  have px: "\<forall>x\<in>set (sorted_set xs). plain_int x"
    and py: "\<forall>x\<in>set (sorted_set ys). plain_int x"
    using assms sorted_set_props(3) by blast+
  have "map PInt (map int_val (sorted_set xs)) = sorted_set xs"
    using px by (rule plain_int_list)
  moreover have "map PInt (map int_val (sorted_set ys)) = sorted_set ys"
    using py by (rule plain_int_list)
  moreover have "map int_val (sorted_set xs) = map int_val (sorted_set ys)"
    using assms(1) by (intro sorted_set_values) simp
  ultimately show ?thesis by simp
qed

lemma eligible_plain:
  assumes "\<not> bool_typed r" and "outgoing_eligible r k \<or> incoming_eligible r k"
  shows "plain_int (route_type r)"
  using assms
  by (cases r; cases "route_type r")
     (auto simp: bool_typed_def outgoing_eligible_def incoming_eligible_def route_type_def
        plain_int_def)

lemma types_perm:
  assumes "set routes' = set routes"
  shows "set (outgoing_types routes' k) = set (outgoing_types routes k)"
    and "set (incoming_types routes' k) = set (incoming_types routes k)"
  using assms by (simp_all add: outgoing_types_def incoming_types_def)

lemma types_plain:
  assumes "\<forall>r\<in>set routes. \<not> bool_typed r"
  shows "\<forall>x\<in>set (outgoing_types routes k). plain_int x"
    and "\<forall>x\<in>set (incoming_types routes k). plain_int x"
  using assms by (auto simp: outgoing_types_def incoming_types_def intro: eligible_plain)

lemma factory_step_cong:
  assumes "\<And>k. sorted_set (get_list inc' k) = sorted_set (get_list inc k)"
    and "\<And>k. sorted_set (get_list out' k) = sorted_set (get_list out k)"
  shows "factory_step lib inc' out' pin = factory_step lib inc out pin"
  by (cases pin) (simp_all add: factory_step_def assms Let_def cong: if_cong)

lemma factory_loop_cong:
  assumes "\<And>k. sorted_set (get_list inc' k) = sorted_set (get_list inc k)"
    and "\<And>k. sorted_set (get_list out' k) = sorted_set (get_list out k)"
  shows "factory_loop lib inc' out' pins acc = factory_loop lib inc out pins acc"
proof (induction pins arbitrary: acc)
  case Nil
  show ?case by simp
next
  case (Cons pin pins)
  have "factory_step lib inc' out' pin = factory_step lib inc out pin"
    using assms by (rule factory_step_cong)
  with Cons show ?case by (simp split: sum.splits option.splits)
qed

lemma factory_flows_perm:
  assumes "mset routes' = mset routes" and "\<forall>r\<in>set routes. \<not> bool_typed r"
  shows "factory_flows lib pins routes' = factory_flows lib pins routes"
proof -
  have s: "set routes' = set routes" using assms(1) by (rule mset_eq_setD)
  have "sorted_set (incoming_types routes' k) = sorted_set (incoming_types routes k)" for k
    using types_perm(2) [OF s] types_plain(2) [of routes'] assms(2) s
    by (intro sorted_set_plain) auto
  moreover have "sorted_set (outgoing_types routes' k) = sorted_set (outgoing_types routes k)" for k
    using types_perm(1) [OF s] types_plain(1) [of routes'] assms(2) s
    by (intro sorted_set_plain) auto
  ultimately show ?thesis
    unfolding factory_flows_def Let_def
    by (intro factory_loop_cong) (simp_all add: route_loop_empty)
qed

lemma example_factory_flows:
  "factory_flows example_lib [example_factory_pin] example_routes =
     Inr [\<lparr>factory_input = ''Bacteria, Biofuels, Carbon Compounds'',
            factory_output = ''Base Metals'', factory_schematic = ''Schematic 66''\<rparr>]"
  by code_simp


section \<open>Inputs on which the engine returns\<close>

lemma table_key_error: "table_key v = Inl e \<Longrightarrow> e = TypeError"
  by (cases v) auto

lemma parse_safe: "safe_expiry lib v \<Longrightarrow> \<exists>t. parse_utc_timestamp lib v = Inr t"
  by (cases v) (auto simp: safe_expiry_def parse_utc_timestamp_def split: sum.splits)

lemma resolve_safe:
  "table_key v \<noteq> Inl TypeError \<Longrightarrow> \<exists>n. resolve_pi_product_name lib v = Inr n"
  by (cases "table_key v") (auto simp: resolve_pi_product_name_def dest: table_key_error)

lemma extractor_step_safe:
  "safe_pin lib pin \<Longrightarrow> \<exists>x. extractor_step lib now pin = Inr x"
proof (cases pin)
  case (PDict p)
  assume safe: "safe_pin lib pin"
  show ?thesis
  proof (cases "dict_get p ''extractor_details''")
    case (PDict x)
    with safe \<open>pin = PDict p\<close> obtain t n where
      "parse_utc_timestamp lib (dict_get p ''expiry_time'') = Inr t"
      "resolve_pi_product_name lib (dict_get x ''product_type_id'') = Inr n"
      using parse_safe resolve_safe by (fastforce simp: safe_pin_def)
    then show ?thesis using PDict \<open>pin = PDict p\<close> by (simp add: extractor_step_def Let_def)
  qed (simp_all add: extractor_step_def \<open>pin = PDict p\<close>)
qed (simp_all add: extractor_step_def)

lemma extractor_loop_safe:
  "\<forall>pin\<in>set pins. safe_pin lib pin \<Longrightarrow> \<exists>x. extractor_loop lib now pins acc = Inr x"
proof (induction pins arbitrary: acc)
  case Nil
  show ?case by simp
next
  case (Cons pin pins)
  then obtain x where "extractor_step lib now pin = Inr x"
    using extractor_step_safe [of lib pin now] by auto
  with Cons show ?case by (cases x) (auto split: prod.splits)
qed

lemma collect_total: "\<forall>x\<in>set xs. \<exists>y. f x = Inr y \<Longrightarrow> \<exists>ys. collect f xs = Inr ys"
  by (induction xs) (auto split: sum.splits)

lemma render_types_total:
  assumes "\<forall>x\<in>set xs. is_int x"
  shows "\<exists>s. render_types lib xs = Inr s"
proof -
  have "\<exists>y. resolve_pi_product_name lib x = Inr y" if "is_int x" for x
    using that by (cases x) (auto simp: resolve_pi_product_name_def)
  then have "\<exists>ys. collect (resolve_pi_product_name lib) xs = Inr ys"
    using assms by (intro collect_total) blast
  then show ?thesis by (auto simp: render_types_def)
qed

lemma types_is_int:
  "\<forall>x\<in>set (outgoing_types routes k). is_int x"
  "\<forall>x\<in>set (incoming_types routes k). is_int x"
  by (auto simp: outgoing_types_def incoming_types_def outgoing_eligible_def
      incoming_eligible_def route_type_def split: pyval.splits)

lemma factory_step_total:
  assumes "\<And>k. \<forall>x\<in>set (get_list inc k). is_int x" and "\<And>k. \<forall>x\<in>set (get_list out k). is_int x"
  shows "\<exists>x. factory_step lib inc out pin = Inr x"
proof (cases pin)
  case (PDict p)
  let ?k = "int_val (dict_get p ''pin_id'')"
  have "\<forall>x\<in>set (sorted_set (get_list inc ?k)). is_int x"
    "\<forall>x\<in>set (sorted_set (get_list out ?k)). is_int x"
    using assms sorted_set_props(3) by blast+
  then obtain a b where "render_types lib (sorted_set (get_list inc ?k)) = Inr a"
    "render_types lib (sorted_set (get_list out ?k)) = Inr b"
    using render_types_total by blast
  then show ?thesis using PDict by (simp add: factory_step_def Let_def)
qed (simp_all add: factory_step_def)

lemma factory_loop_total:
  assumes "\<And>k. \<forall>x\<in>set (get_list inc k). is_int x" and "\<And>k. \<forall>x\<in>set (get_list out k). is_int x"
  shows "\<exists>x. factory_loop lib inc out pins acc = Inr x"
proof (induction pins arbitrary: acc)
  case Nil
  show ?case by simp
next
  case (Cons pin pins)
  obtain x where "factory_step lib inc out pin = Inr x"
    using factory_step_total [OF assms] by blast
  with Cons show ?case by (cases x) auto
qed

lemma factory_flows_total: "\<exists>x. factory_flows lib pins routes = Inr x"
  unfolding factory_flows_def Let_def
  by (intro factory_loop_total) (simp_all add: route_loop_empty types_is_int)

lemma safe_pin_hashable: "safe_pin lib pin \<Longrightarrow> hashable_type pin"
  by (cases pin) (auto simp: safe_pin_def hashable_type_def)

lemma planet_status_safe:
  assumes "\<forall>k d. dm k = Some d \<longrightarrow> safe_detail lib d"
  shows "\<exists>r. planet_status lib now dm (PDict pl) = Inr (Some r)
             \<and> planet_id r = dict_get pl ''planet_id''"
proof -
  let ?detail = "case dm (py_str lib (dict_get pl ''planet_id'')) of None \<Rightarrow> [] | Some d \<Rightarrow> d"
  have "safe_detail lib ?detail"
  proof (cases "dm (py_str lib (dict_get pl ''planet_id''))")
    case None
    then show ?thesis by (simp add: safe_detail_def dict_get_default_def)
  next
    case (Some d)
    then show ?thesis using assms by simp
  qed
  then obtain pins routes where
    pins: "py_iter (dict_get_default ?detail ''pins'' (PList [])) = Inr pins" and
    safe: "\<forall>pin\<in>set pins. safe_pin lib pin" and
    routes: "py_iter (dict_get_default ?detail ''routes'' (PList [])) = Inr routes"
    by (auto simp: safe_detail_def list_all_iff split: sum.splits)
  obtain ext where ext: "extractor_loop lib now pins ([], []) = Inr ext"
    using extractor_loop_safe [OF safe] by blast
  obtain facs where facs: "factory_flows lib pins routes = Inr facs"
    using factory_flows_total by blast
  have "\<forall>pin\<in>set pins. hashable_type pin" using safe safe_pin_hashable by blast
  then have fill: "estimate_storage_fill_pct (dict_get_default ?detail ''pins'' (PList []))
                     = Inr (max_fill_of None (List.map_filter spec_fill pins))"
    using pins by (simp add: estimate_storage_fill_pct_def storage_loop_spec)
  show ?thesis
    using pins ext routes facs fill by (simp add: planet_status_def Let_def)
qed

lemma planets_loop_safe:
  assumes "\<forall>k d. dm k = Some d \<longrightarrow> safe_detail lib d"
  shows "\<exists>rs. planets_loop lib now dm planets acc = Inr rs
              \<and> map planet_id rs = map planet_id acc @ record_ids planets"
proof (induction planets arbitrary: acc)
  case Nil
  show ?case by (simp add: record_ids_def)
next
  case (Cons planet planets)
  show ?case
  proof (cases planet)
    case (PDict pl)
    obtain r where r: "planet_status lib now dm (PDict pl) = Inr (Some r)"
      "planet_id r = dict_get pl ''planet_id''"
      using planet_status_safe [OF assms] by blast
    from Cons [of "acc @ [r]"] r PDict show ?thesis by (auto simp: record_ids_def)
  qed (use Cons in \<open>auto simp: planet_status_def record_ids_def\<close>)
qed


section \<open>The claims\<close>




text \<open>
  C2. The claim is that the engine returns under every input. The code raises on
  inputs of its declared types: a detail whose \<^verbatim>\<open>pins\<close> is \<^verbatim>\<open>null\<close> makes
  \<^verbatim>\<open>for pin in pins\<close> raise \<^verbatim>\<open>TypeError\<close>, and an extractor pin whose
  \<^verbatim>\<open>expiry_time\<close> is the number 5 makes \<^verbatim>\<open>value.replace\<close> raise
  \<^verbatim>\<open>AttributeError\<close>, which \<^verbatim>\<open>except ValueError\<close> does not catch.
\<close>

theorem engine_raises_on_malformed_detail:
  "parse_pi_status lib now (PList [PDict [(''planet_id'', PInt 1)]])
     (PDict [(''1'', PDict [(''pins'', PNone)])]) = Inl TypeError
   \<and> parse_pi_status lib now (PList [PDict [(''planet_id'', PInt 1)]])
     (PDict [(''1'', PDict [(''pins'',
        PList [PDict [(''extractor_details'', PDict []), (''expiry_time'', PInt 5)]])])])
       = Inl AttributeError"
  by (simp add: parse_pi_status_def build_details_map_def planet_status_def dict_get_def
      dict_get_default_def str_int_def str_nat.simps digit_char_def extractor_step_def
      parse_utc_timestamp_def)


text \<open>
  What the engine does guarantee: when the planets value can be iterated and every
  detail of the details mapping is safe, the engine returns, with one record for
  every record-shaped planet entry, in order, and none for the other entries.
\<close>

theorem engine_returns_on_safe_input:
  assumes "py_iter planets_data = Inr planets"
    and "\<forall>k d. build_details_map lib planet_details k = Some d \<longrightarrow> safe_detail lib d"
  shows "\<exists>rs. parse_pi_status lib now planets_data planet_details = Inr rs
              \<and> map planet_id rs = record_ids planets"
  using assms planets_loop_safe [of "build_details_map lib planet_details" lib now planets "[]"]
  by (simp add: parse_pi_status_def)


text \<open>
  C3. An extractor entry contributes an attention reason if and only if its state is
  \<^verbatim>\<open>expired\<close>, or its state is \<^verbatim>\<open>running\<close> and its remaining time is at most 6.0
  hours (the boundary 6.0 included); an \<^verbatim>\<open>idle\<close> entry contributes none. An entry
  contributes at most one reason.
\<close>

theorem extractor_attention_iff:
  assumes "extractor_step lib now pin = Inr (Some (entry, reasons))"
  shows "(reasons \<noteq> [] \<longleftrightarrow>
            status entry = ''expired'' \<or>
            (status entry = ''running'' \<and> (\<exists>h. hours_remaining entry = Some h \<and> h \<le> 6)))
         \<and> (status entry = ''idle'' \<longrightarrow> reasons = [])
         \<and> length reasons \<le> 1"
  using assms by (elim extractor_step_shape) (auto split: option.splits)

theorem extractor_attention_iff_witness:
  "extractor_step example_lib example_now (example_extractor_pin (PStr ''2024-01-01T06:00:00Z'')) =
     Inr (Some (example_entry (PStr ''2024-01-01T06:00:00Z'') (Some 6) ''running'',
                [''Extractor expires in 6.0h'']))
   \<and> ([''Extractor expires in 6.0h''] \<noteq> [] \<longleftrightarrow>
        status (example_entry (PStr ''2024-01-01T06:00:00Z'') (Some 6) ''running'') = ''expired'' \<or>
        (status (example_entry (PStr ''2024-01-01T06:00:00Z'') (Some 6) ''running'') = ''running'' \<and>
         (\<exists>h. hours_remaining (example_entry (PStr ''2024-01-01T06:00:00Z'') (Some 6) ''running'')
                = Some h \<and> h \<le> 6)))"
  using extractor_attention_iff [OF example_step_6h] example_step_6h by blast






text \<open>
  C5. For every colony the attention reasons are collected in encounter order (at
  most one per pin, in pin order, then at most one storage message) and
  de-duplicated so that every message stands once, at the place of its first
  occurrence; \<^verbatim>\<open>needs_attention\<close> is true if and only if the de-duplicated list is not
  empty, and the consolidated reason is that list joined by a semicolon and a space,
  or \<^verbatim>\<open>none\<close> when it is empty.
\<close>

theorem attention_reasons_deduplicated:
  assumes "planet_status lib now dm planet = Inr (Some r)"
  shows "\<exists>pl pins.
           planet = PDict pl
         \<and> py_iter (dict_get_default
                      (case dm (py_str lib (dict_get pl ''planet_id'')) of None \<Rightarrow> [] | Some d \<Rightarrow> d)
                      ''pins'' (PList [])) = Inr pins
         \<and> list_all (\<lambda>pin. length (pin_reasons lib now pin) \<le> 1) pins
         \<and> length (storage_reasons lib (storage_fill_pct r)) \<le> 1
         \<and> (let reasons = concat (map (pin_reasons lib now) pins)
                             @ storage_reasons lib (storage_fill_pct r);
                 unique = first_occurrences reasons
             in distinct unique
              \<and> set unique = set reasons
              \<and> needs_attention r = (unique \<noteq> [])
              \<and> action_required r = (if unique = [] then ''none'' else join ''; '' unique))"
proof -
  from assms obtain pl where pl: "planet = PDict pl"
    by (cases planet) (auto simp: planet_status_def)
  let ?detail = "case dm (py_str lib (dict_get pl ''planet_id'')) of None \<Rightarrow> [] | Some d \<Rightarrow> d"
  let ?pins = "dict_get_default ?detail ''pins'' (PList [])"
  let ?routes = "dict_get_default ?detail ''routes'' (PList [])"
  from assms pl obtain pins where pins: "py_iter ?pins = Inr pins"
    by (cases "py_iter ?pins") (auto simp: planet_status_def Let_def)
  from assms pl pins obtain ext where ext: "extractor_loop lib now pins ([], []) = Inr ext"
    by (cases "extractor_loop lib now pins ([], [])") (auto simp: planet_status_def Let_def)
  from assms pl pins ext obtain routes where routes: "py_iter ?routes = Inr routes"
    by (cases "py_iter ?routes") (auto simp: planet_status_def Let_def)
  from assms pl pins ext routes obtain facs where facs: "factory_flows lib pins routes = Inr facs"
    by (cases "factory_flows lib pins routes") (auto simp: planet_status_def Let_def)
  from assms pl pins ext routes facs obtain fill where
    fill: "estimate_storage_fill_pct ?pins = Inr fill"
    by (cases "estimate_storage_fill_pct ?pins") (auto simp: planet_status_def Let_def)
  let ?reasons = "snd ext @ storage_reasons lib fill"
  have r: "storage_fill_pct r = fill" "needs_attention r = (fromkeys ?reasons \<noteq> [])"
    "action_required r =
       (if fromkeys ?reasons \<noteq> [] then join ''; '' (fromkeys ?reasons) else ''none'')"
    using assms pl pins ext routes facs fill by (auto simp: planet_status_def Let_def)
  have "snd ext = concat (map (pin_reasons lib now) pins)"
    using extractor_loop_reasons [OF ext] by simp
  moreover have "list_all (\<lambda>pin. length (pin_reasons lib now pin) \<le> 1) pins"
    unfolding list_all_iff using pin_reasons_length by blast
  moreover have "length (storage_reasons lib fill) \<le> 1"
    by (simp add: storage_reasons_def split: option.splits)
  ultimately show ?thesis
    using r pins pl
    by (auto simp: Let_def fromkeys_first_occurrences set_first_occurrences
        distinct_first_occurrences)
qed

theorem attention_reasons_deduplicated_witness:
  "planet_status example_lib example_now
     (build_details_map example_lib (example_details example_busy_pins))
     (PDict [(''planet_id'', PInt 1)]) = Inr (Some example_busy_record)
   \<and> (\<exists>pl pins.
           PDict [(''planet_id'', PInt 1)] = PDict pl
         \<and> py_iter (dict_get_default
                      (case build_details_map example_lib (example_details example_busy_pins)
                              (py_str example_lib (dict_get pl ''planet_id'')) of
                         None \<Rightarrow> [] | Some d \<Rightarrow> d)
                      ''pins'' (PList [])) = Inr pins
         \<and> list_all (\<lambda>pin. length (pin_reasons example_lib example_now pin) \<le> 1) pins
         \<and> length (storage_reasons example_lib (storage_fill_pct example_busy_record)) \<le> 1
         \<and> (let reasons = concat (map (pin_reasons example_lib example_now) pins)
                             @ storage_reasons example_lib (storage_fill_pct example_busy_record);
                 unique = first_occurrences reasons
             in distinct unique
              \<and> set unique = set reasons
              \<and> needs_attention example_busy_record = (unique \<noteq> [])
              \<and> action_required example_busy_record =
                  (if unique = [] then ''none'' else join ''; '' unique)))
   \<and> action_required example_busy_record =
       ''Extractor already expired; Storage/Launchpad at 90.0%''"
proof -
  note h = example_busy_status
  note c = attention_reasons_deduplicated [OF h]
  have a: "action_required example_busy_record =
       ''Extractor already expired; Storage/Launchpad at 90.0%''"
    by (simp add: example_busy_record_def)
  from h c a show ?thesis by (intro conjI)
qed

text \<open>
  C6, as the code has it. The outgoing map holds under a pin the commodity types of
  exactly the routes (records) whose source-pin identifier and commodity-type
  identifier are both integers and whose source is that pin, in route order, and the
  incoming map likewise for the destination pin, independently. What a factory lists
  is in ascending type-identifier order with distinct values; the listed values are
  invariant under every permutation of the route list, and so are the rendered input
  and output of every factory when no commodity-type identifier is a boolean.
\<close>

theorem route_aggregation_order_independent:
  "get_list (snd (route_loop routes (Map.empty, Map.empty))) k = outgoing_types routes k
   \<and> get_list (fst (route_loop routes (Map.empty, Map.empty))) k = incoming_types routes k
   \<and> sorted (map int_val (sorted_set xs))
   \<and> distinct (map int_val (sorted_set xs))
   \<and> int_val ` set (sorted_set xs) = int_val ` set xs
   \<and> (mset routes' = mset routes \<longrightarrow>
        map int_val (sorted_set (incoming_types routes' k))
          = map int_val (sorted_set (incoming_types routes k))
      \<and> map int_val (sorted_set (outgoing_types routes' k))
          = map int_val (sorted_set (outgoing_types routes k)))
   \<and> (mset routes' = mset routes \<and> (\<forall>r\<in>set routes. \<not> bool_typed r) \<longrightarrow>
        factory_flows lib pins routes' = factory_flows lib pins routes)"
proof (intro conjI impI)
  assume m: "mset routes' = mset routes"
  then have s: "set routes' = set routes" by (rule mset_eq_setD)
  show "map int_val (sorted_set (incoming_types routes' k))
          = map int_val (sorted_set (incoming_types routes k))"
    using types_perm(2) [OF s] by (intro sorted_set_values) simp
  show "map int_val (sorted_set (outgoing_types routes' k))
          = map int_val (sorted_set (outgoing_types routes k))"
    using types_perm(1) [OF s] by (intro sorted_set_values) simp
next
  assume "mset routes' = mset routes \<and> (\<forall>r\<in>set routes. \<not> bool_typed r)"
  then show "factory_flows lib pins routes' = factory_flows lib pins routes"
    by (intro factory_flows_perm) simp_all
qed (simp_all add: route_loop_empty sorted_set_props)


theorem route_aggregation_order_independent_witness:
  "mset (rev example_routes) = mset example_routes
   \<and> list_all (\<lambda>r. \<not> bool_typed r) example_routes
   \<and> factory_flows example_lib [example_factory_pin] (rev example_routes) =
       factory_flows example_lib [example_factory_pin] example_routes
   \<and> factory_flows example_lib [example_factory_pin] example_routes =
       Inr [\<lparr>factory_input = ''Bacteria, Biofuels, Carbon Compounds'',
              factory_output = ''Base Metals'', factory_schematic = ''Schematic 66''\<rparr>]"
proof -
  have h1: "mset (rev example_routes) = mset example_routes" by simp
  have h2: "list_all (\<lambda>r. \<not> bool_typed r) example_routes"
    by (simp add: example_routes_def example_route_def bool_typed_def route_type_def dict_get_def)
  then have h2': "\<forall>r\<in>set example_routes. \<not> bool_typed r" by (simp add: list_all_iff)
  from route_aggregation_order_independent [of example_routes _ _ "rev example_routes" example_lib "[example_factory_pin]"]
    h1 h2' have "factory_flows example_lib [example_factory_pin] (rev example_routes) =
       factory_flows example_lib [example_factory_pin] example_routes"
    by blast
  with h1 h2 example_factory_flows show ?thesis by simp
qed


text \<open>
  C6 as stated fails: \<^verbatim>\<open>isinstance(True, int)\<close> holds and \<^verbatim>\<open>True == 1\<close>, so of two
  routes into pin 7 carrying the types \<^verbatim>\<open>1\<close> and \<^verbatim>\<open>True\<close> the set keeps the one
  supplied first, and the factory's rendered input changes with the order of the
  routes.
\<close>

theorem route_order_counterexample:
  "factory_flows example_lib [example_factory_pin]
     [example_route PNone (PInt 7) (PInt 1), example_route PNone (PInt 7) (PBool True)] =
     Inr [\<lparr>factory_input = ''type_id:1'', factory_output = ''unknown'',
            factory_schematic = ''Schematic 66''\<rparr>]
   \<and> factory_flows example_lib [example_factory_pin]
     [example_route PNone (PInt 7) (PBool True), example_route PNone (PInt 7) (PInt 1)] =
     Inr [\<lparr>factory_input = ''type_id:True'', factory_output = ''unknown'',
            factory_schematic = ''Schematic 66''\<rparr>]"
  by code_simp















text \<open>
  C10, as the code has it. A planet entry that is a record with an absent or null
  colony identifier is never skipped: its detail is looked up under the key
  \<^verbatim>\<open>"None"\<close> and nothing else of the details mapping matters; when the engine
  returns, the list holds a record for the entry, whose colony identifier is null and
  whose display name is that detail's \<^verbatim>\<open>_planet_name\<close> when it has one and the label
  \<^verbatim>\<open>"Planet None"\<close> otherwise. With no detail under \<^verbatim>\<open>"None"\<close> the record is the
  empty one named \<^verbatim>\<open>"Planet None"\<close>.
\<close>

theorem planet_without_identifier:
  assumes "dict_get pl ''planet_id'' = PNone"
  shows "planet_status lib now dm (PDict pl) \<noteq> Inr None
    \<and> (\<forall>r. planet_status lib now dm (PDict pl) = Inr (Some r) \<longrightarrow>
           planet_id r = PNone \<and>
           planet_name r =
             dict_get_default (case dm ''None'' of None \<Rightarrow> [] | Some d \<Rightarrow> d) ''_planet_name''
               (PStr ''Planet None''))
    \<and> (\<forall>dm'. dm' ''None'' = dm ''None'' \<longrightarrow>
           planet_status lib now dm' (PDict pl) = planet_status lib now dm (PDict pl))
    \<and> (dm ''None'' = None \<longrightarrow>
           planet_status lib now dm (PDict pl) =
             Inr (Some \<lparr>planet_id = PNone, planet_name = PStr ''Planet None'',
                         planet_type = dict_get pl ''planet_type'',
                         solar_system_id = dict_get pl ''solar_system_id'',
                         character = PStr ''unknown'', extractors = [],
                         storage_fill_pct = None, factories = [],
                         needs_attention = False, action_required = ''none''\<rparr>))
    \<and> (\<forall>planets_data planets planet_details rs.
           py_iter planets_data = Inr planets \<and> PDict pl \<in> set planets \<and>
           parse_pi_status lib now planets_data planet_details = Inr rs \<longrightarrow>
           (\<exists>r\<in>set rs. planet_status lib now (build_details_map lib planet_details) (PDict pl)
                           = Inr (Some r)))"
proof (intro conjI allI impI)
  show "planet_status lib now dm (PDict pl) \<noteq> Inr None"
    by (simp add: planet_status_def Let_def split: sum.splits)
next
  fix r assume "planet_status lib now dm (PDict pl) = Inr (Some r)"
  then show "planet_id r = PNone"
    using assms by (auto simp: planet_status_def Let_def split: sum.splits)
next
  fix r assume "planet_status lib now dm (PDict pl) = Inr (Some r)"
  then show "planet_name r =
             dict_get_default (case dm ''None'' of None \<Rightarrow> [] | Some d \<Rightarrow> d) ''_planet_name''
               (PStr ''Planet None'')"
    using assms by (auto simp: planet_status_def Let_def split: sum.splits)
next
  fix dm' :: details_map assume "dm' ''None'' = dm ''None''"
  then show "planet_status lib now dm' (PDict pl) = planet_status lib now dm (PDict pl)"
    using assms by (simp add: planet_status_def)
next
  assume "dm ''None'' = None"
  then show "planet_status lib now dm (PDict pl) =
             Inr (Some \<lparr>planet_id = PNone, planet_name = PStr ''Planet None'',
                         planet_type = dict_get pl ''planet_type'',
                         solar_system_id = dict_get pl ''solar_system_id'',
                         character = PStr ''unknown'', extractors = [],
                         storage_fill_pct = None, factories = [],
                         needs_attention = False, action_required = ''none''\<rparr>)"
    using assms
    by (simp add: planet_status_def dict_get_default_def factory_flows_def
        estimate_storage_fill_pct_def storage_reasons_def fromkeys_def)
next
  fix planets_data planets planet_details rs
  assume a: "py_iter planets_data = Inr planets \<and> PDict pl \<in> set planets \<and>
           parse_pi_status lib now planets_data planet_details = Inr rs"
  let ?dm = "build_details_map lib planet_details"
  have loop: "planets_loop lib now ?dm planets [] = Inr rs"
    using a by (auto simp: parse_pi_status_def)
  from planets_loop_total [OF loop] a obtain x where
    x: "planet_status lib now ?dm (PDict pl) = Inr x" by blast
  moreover have "x \<noteq> None"
    using x by (auto simp: planet_status_def Let_def split: sum.splits)
  ultimately obtain r where r: "planet_status lib now ?dm (PDict pl) = Inr (Some r)" by auto
  have "r \<in> set rs"
    using planets_loop_result [OF loop] a r
    by (auto intro!: bexI [of _ "PDict pl"])
  with r show "\<exists>r\<in>set rs. planet_status lib now ?dm (PDict pl) = Inr (Some r)" by blast
qed

theorem planet_without_identifier_witness:
  "dict_get [(''planet_id'', PNone), (''planet_type'', PStr ''gas'')] ''planet_id'' = PNone
   \<and> planet_status example_lib example_now Map.empty
         (PDict [(''planet_id'', PNone), (''planet_type'', PStr ''gas'')]) =
       Inr (Some \<lparr>planet_id = PNone, planet_name = PStr ''Planet None'',
                   planet_type = PStr ''gas'', solar_system_id = PNone,
                   character = PStr ''unknown'', extractors = [],
                   storage_fill_pct = None, factories = [],
                   needs_attention = False, action_required = ''none''\<rparr>)"
  using planet_without_identifier [of "[(''planet_id'', PNone), (''planet_type'', PStr ''gas'')]"
      example_lib example_now Map.empty]
  by (simp add: dict_get_def)

text \<open>
  C10 as stated fails: with a detail under the key \<^verbatim>\<open>"None"\<close> that carries a
  \<^verbatim>\<open>_planet_name\<close>, the display name of the record is that name, not
  \<^verbatim>\<open>"Planet None"\<close>.
\<close>

theorem planet_without_identifier_counterexample:
  "map_sum id (map (\<lambda>r. (planet_id r, planet_name r)))
     (parse_pi_status example_lib example_now (PList [PDict [(''planet_type'', PStr ''gas'')]])
        (PDict [(''None'', PDict [(''_planet_name'', PStr ''Foo'')])]))
   = Inr [(PNone, PStr ''Foo'')]"
  by code_simp


end
